theory Spec2Isabelle
  imports Complex_Main
begin

section \<open>The option pricer of pricing.py\<close>

text \<open>
  The module prices European options with two closed forms (Black-Scholes for a spot
  underlying, Black-76 for a futures underlying), computes their sensitivities and
  inverts the price for the volatility. Its numbers are IEEE doubles; here they are
  real numbers, so the theorems speak about the formulas the code evaluates and not
  about the rounding error of each floating-point operation. One effect of the doubles
  is modelled apart, because it changes what the functions return: \<open>norm.cdf\<close> returns
  exactly 1.0 for a large argument (see \<open>norm_cdf_double\<close>).
\<close>

subsection \<open>Exceptions\<close>

text \<open>
  The exceptions that can leave the functions of the module: \<open>ValueError\<close> is raised by
  the module itself and by the root finder, \<open>ZeroDivisionError\<close> by the division of two
  Python floats, \<open>RuntimeError\<close> by the root finder when it does not converge.
\<close>

datatype error = ValueError | ZeroDivisionError | RuntimeError

text \<open>\<^verbatim>\<open>S / K\<close> on Python floats raises when the divisor is zero.\<close>

definition py_truediv :: "real \<Rightarrow> real \<Rightarrow> error + real" where
  "py_truediv a b = (if b = 0 then Inl ZeroDivisionError else Inr (a / b))"

subsection \<open>The standard normal distribution (scipy.stats.norm)\<close>

text \<open>
  \<open>norm.pdf\<close> is the density \<open>exp (- x\<^sup>2 / 2) / sqrt (2 pi)\<close>. \<open>norm.cdf\<close> is its
  integral from minus infinity, which is one half plus the integral from 0 to \<open>x\<close>;
  integrating the exponential series term by term gives
  \<open>x * (\<Sum>n. (- 1 / 2) ^ n / (n! * (2 n + 1)) * (x\<^sup>2) ^ n)\<close> for the latter.
  The lemmas \<open>norm_cdf_deriv\<close> and \<open>norm_cdf_0\<close> below characterise the function.
\<close>

definition cdf_coeff :: "nat \<Rightarrow> real" where
  "cdf_coeff n = (- 1 / 2) ^ n / (fact n * (2 * real n + 1))"

definition gauss_integral :: "real \<Rightarrow> real" where
  "gauss_integral x = x * (\<Sum>n. cdf_coeff n * (x\<^sup>2) ^ n)"

definition norm_pdf :: "real \<Rightarrow> real" where
  "norm_pdf x = exp (- x\<^sup>2 / 2) / sqrt (2 * pi)"

definition norm_cdf :: "real \<Rightarrow> real" where
  "norm_cdf x = 1 / 2 + gauss_integral x / sqrt (2 * pi)"

subsection \<open>Rounding (the builtin round)\<close>

text \<open>
  \<open>round(x, n)\<close> gives the multiple of \<open>10 ^ (- n)\<close> nearest to \<open>x\<close>; a tie goes to the
  even multiple.
\<close>

definition rint :: "real \<Rightarrow> int" where
  "rint x =
     (let f = \<lfloor>x\<rfloor>; d = x - of_int f
      in if d < 1 / 2 then f
         else if 1 / 2 < d then f + 1
         else if even f then f else f + 1)"

definition py_round :: "real \<Rightarrow> nat \<Rightarrow> real" where
  "py_round x n = of_int (rint (x * 10 ^ n)) / 10 ^ n"

subsection \<open>Prices\<close>

definition black_scholes :: "real \<Rightarrow> real \<Rightarrow> real \<Rightarrow> real \<Rightarrow> real \<Rightarrow> string \<Rightarrow> error + real" where
  "black_scholes S K T r sigma option_type =
     (case py_truediv S K of
        Inl e \<Rightarrow> Inl e
      | Inr q \<Rightarrow>
          let d1 = (ln q + (r + 0.5 * sigma\<^sup>2) * T) / (sigma * sqrt T);
              d2 = d1 - sigma * sqrt T
          in if option_type = ''call'' then
               Inr (S * norm_cdf d1 - K * exp (- r * T) * norm_cdf d2)
             else if option_type = ''put'' then
               Inr (K * exp (- r * T) * norm_cdf (- d2) - S * norm_cdf (- d1))
             else Inl ValueError)"

definition black_76 :: "real \<Rightarrow> real \<Rightarrow> real \<Rightarrow> real \<Rightarrow> real \<Rightarrow> string \<Rightarrow> error + real" where
  "black_76 F K T r sigma option_type =
     (case py_truediv F K of
        Inl e \<Rightarrow> Inl e
      | Inr q \<Rightarrow>
          let d1 = (ln q + 0.5 * sigma\<^sup>2 * T) / (sigma * sqrt T);
              d2 = d1 - sigma * sqrt T;
              df = exp (- r * T)
          in if option_type = ''call'' then
               Inr (df * (F * norm_cdf d1 - K * norm_cdf d2))
             else if option_type = ''put'' then
               Inr (df * (K * norm_cdf (- d2) - F * norm_cdf (- d1)))
             else Inl ValueError)"

definition price_option ::
  "string \<Rightarrow> real \<Rightarrow> real \<Rightarrow> real \<Rightarrow> real \<Rightarrow> real \<Rightarrow> string \<Rightarrow> error + real" where
  "price_option model S_or_F K T r sigma option_type =
     (if model = ''spot'' then black_scholes S_or_F K T r sigma option_type
      else if model = ''futures'' then black_76 S_or_F K T r sigma option_type
      else Inl ValueError)"

subsection \<open>Greeks\<close>

text \<open>The dictionary the Greeks functions return, each entry rounded to 4 places.\<close>

definition greeks_dict :: "real \<Rightarrow> real \<Rightarrow> real \<Rightarrow> real \<Rightarrow> real \<Rightarrow> (string \<rightharpoonup> real)" where
  "greeks_dict delta gamma vega theta rho =
     [''Delta'' \<mapsto> py_round delta 4,
      ''Gamma'' \<mapsto> py_round gamma 4,
      ''Vega'' \<mapsto> py_round vega 4,
      ''Theta'' \<mapsto> py_round theta 4,
      ''Rho'' \<mapsto> py_round rho 4]"

definition calculate_greeks_bs ::
  "real \<Rightarrow> real \<Rightarrow> real \<Rightarrow> real \<Rightarrow> real \<Rightarrow> string \<Rightarrow> error + (string \<rightharpoonup> real)" where
  "calculate_greeks_bs S K T r sigma option_type =
     (case py_truediv S K of
        Inl e \<Rightarrow> Inl e
      | Inr q \<Rightarrow>
          let d1 = (ln q + (r + 0.5 * sigma\<^sup>2) * T) / (sigma * sqrt T);
              d2 = d1 - sigma * sqrt T
          in (case
                (if option_type = ''call'' then
                   let delta = norm_cdf d1;
                       theta = (- S * norm_pdf d1 * sigma / (2 * sqrt T)
                                - r * K * exp (- r * T) * norm_cdf d2) / 365;
                       rho = K * T * exp (- r * T) * norm_cdf d2 / 100
                   in Inr (delta, theta, rho)
                 else if option_type = ''put'' then
                   let delta = norm_cdf d1 - 1;
                       theta = (- S * norm_pdf d1 * sigma / (2 * sqrt T)
                                + r * K * exp (- r * T) * norm_cdf (- d2)) / 365;
                       rho = - K * T * exp (- r * T) * norm_cdf (- d2) / 100
                   in Inr (delta, theta, rho)
                 else Inl ValueError)
              of
                Inl e \<Rightarrow> Inl e
              | Inr (delta, theta, rho) \<Rightarrow>
                  let gamma = norm_pdf d1 / (S * sigma * sqrt T);
                      vega = S * norm_pdf d1 * sqrt T / 100
                  in Inr (greeks_dict delta gamma vega theta rho)))"

definition calculate_greeks_black76 ::
  "real \<Rightarrow> real \<Rightarrow> real \<Rightarrow> real \<Rightarrow> real \<Rightarrow> string \<Rightarrow> error + (string \<rightharpoonup> real)" where
  "calculate_greeks_black76 F K T r sigma option_type =
     (case py_truediv F K of
        Inl e \<Rightarrow> Inl e
      | Inr q \<Rightarrow>
          let d1 = (ln q + 0.5 * sigma\<^sup>2 * T) / (sigma * sqrt T);
              d2 = d1 - sigma * sqrt T;
              df = exp (- r * T);
              gamma = norm_pdf d1 / (F * sigma * sqrt T);
              vega = F * norm_pdf d1 * sqrt T * df / 100
          in if option_type = ''call'' then
               let delta = df * norm_cdf d1;
                   rho = T * K * df * norm_cdf d2 / 100;
                   theta = (- F * norm_pdf d1 * sigma * df / (2 * sqrt T)
                            - r * F * norm_cdf d1 * df) / 365
               in Inr (greeks_dict delta gamma vega theta rho)
             else if option_type = ''put'' then
               let delta = - df * norm_cdf (- d1);
                   rho = - T * K * df * norm_cdf (- d2) / 100;
                   theta = (- F * norm_pdf d1 * sigma * df / (2 * sqrt T)
                            + r * F * norm_cdf (- d1) * df) / 365
               in Inr (greeks_dict delta gamma vega theta rho)
             else Inl ValueError)"

definition calculate_greeks ::
  "string \<Rightarrow> real \<Rightarrow> real \<Rightarrow> real \<Rightarrow> real \<Rightarrow> real \<Rightarrow> string \<Rightarrow> error + (string \<rightharpoonup> real)" where
  "calculate_greeks model S_or_F K T r sigma option_type =
     (if model = ''spot'' then calculate_greeks_bs S_or_F K T r sigma option_type
      else if model = ''futures'' then calculate_greeks_black76 S_or_F K T r sigma option_type
      else Inl ValueError)"

text \<open>The entry of a returned dictionary under a key, \<open>None\<close> when the call raised.\<close>

definition greek_of :: "error + (string \<rightharpoonup> real) \<Rightarrow> string \<Rightarrow> real option" where
  "greek_of res key = (case res of Inl e \<Rightarrow> None | Inr g \<Rightarrow> g key)"

subsection \<open>Implied volatility\<close>

text \<open>
  The root finder \<open>scipy.optimize.brentq\<close> is a parameter of the model: a function from
  the objective and the two ends of the bracket to a root or an exception. The objective
  is the closure \<open>objective_function\<close> of each solver.
\<close>

type_synonym root_finder = "(real \<Rightarrow> error + real) \<Rightarrow> real \<Rightarrow> real \<Rightarrow> error + real"

definition bs_objective_function ::
  "real \<Rightarrow> real \<Rightarrow> real \<Rightarrow> real \<Rightarrow> real \<Rightarrow> string \<Rightarrow> real \<Rightarrow> error + real" where
  "bs_objective_function option_market_price S K T r option_type sigma =
     (case black_scholes S K T r sigma option_type of
        Inl e \<Rightarrow> Inl e
      | Inr p \<Rightarrow> Inr (p - option_market_price))"

definition b76_objective_function ::
  "real \<Rightarrow> real \<Rightarrow> real \<Rightarrow> real \<Rightarrow> real \<Rightarrow> string \<Rightarrow> real \<Rightarrow> error + real" where
  "b76_objective_function option_market_price F K T r option_type sigma =
     (case black_76 F K T r sigma option_type of
        Inl e \<Rightarrow> Inl e
      | Inr p \<Rightarrow> Inr (p - option_market_price))"

text \<open>\<^verbatim>\<open>try: ... except ValueError: return None\<close> around a body.\<close>

definition except_ValueError :: "error + real option \<Rightarrow> error + real option" where
  "except_ValueError body =
     (case body of
        Inl e \<Rightarrow> if e = ValueError then Inr None else Inl e
      | Inr v \<Rightarrow> Inr v)"

definition implied_volatility ::
  "root_finder \<Rightarrow> real \<Rightarrow> real \<Rightarrow> real \<Rightarrow> real \<Rightarrow> real \<Rightarrow> string \<Rightarrow> error + real option" where
  "implied_volatility brentq option_market_price S K T r option_type =
     except_ValueError
       (case black_scholes S K T r 0.0001 option_type of
          Inl e \<Rightarrow> Inl e
        | Inr test_low \<Rightarrow>
            (case black_scholes S K T r 3.0 option_type of
               Inl e \<Rightarrow> Inl e
             | Inr test_high \<Rightarrow>
                 if \<not> (test_low \<le> option_market_price \<and> option_market_price \<le> test_high)
                 then Inr None
                 else (case brentq (bs_objective_function option_market_price S K T r option_type)
                              0.0001 3.0 of
                         Inl e \<Rightarrow> Inl e
                       | Inr implied_vol \<Rightarrow> Inr (Some (py_round implied_vol 4)))))"

definition implied_volatility_black76 ::
  "root_finder \<Rightarrow> real \<Rightarrow> real \<Rightarrow> real \<Rightarrow> real \<Rightarrow> real \<Rightarrow> string \<Rightarrow> error + real option" where
  "implied_volatility_black76 brentq option_market_price F K T r option_type =
     except_ValueError
       (case black_76 F K T r 0.0001 option_type of
          Inl e \<Rightarrow> Inl e
        | Inr test_low \<Rightarrow>
            (case black_76 F K T r 3.0 option_type of
               Inl e \<Rightarrow> Inl e
             | Inr test_high \<Rightarrow>
                 if \<not> (test_low \<le> option_market_price \<and> option_market_price \<le> test_high)
                 then Inr None
                 else (case brentq (b76_objective_function option_market_price F K T r option_type)
                              0.0001 3.0 of
                         Inl e \<Rightarrow> Inl e
                       | Inr implied_vol \<Rightarrow> Inr (Some (py_round implied_vol 4)))))"

definition get_implied_volatility ::
  "root_finder \<Rightarrow> string \<Rightarrow> real \<Rightarrow> real \<Rightarrow> real \<Rightarrow> real \<Rightarrow> real \<Rightarrow> string
     \<Rightarrow> error + real option" where
  "get_implied_volatility brentq model market_price S_or_F K T r option_type =
     (if model = ''spot'' then
        implied_volatility brentq market_price S_or_F K T r option_type
      else if model = ''futures'' then
        implied_volatility_black76 brentq market_price S_or_F K T r option_type
      else Inl ValueError)"

subsection \<open>The closed forms as the specification writes them\<close>

text \<open>
  The dividendless Black-Scholes value and the Black-76 value, written from the
  specification: \<open>d1\<close>, \<open>d2 = d1 - \<sigma> \<surd>T\<close>, the discount factor, and the call and put
  values. They are compared with the functions of the module below.
\<close>

definition spec_d1_spot :: "real \<Rightarrow> real \<Rightarrow> real \<Rightarrow> real \<Rightarrow> real \<Rightarrow> real" where
  "spec_d1_spot S K T r sigma = (ln (S / K) + (r + 0.5 * sigma\<^sup>2) * T) / (sigma * sqrt T)"

definition spec_d1_futures :: "real \<Rightarrow> real \<Rightarrow> real \<Rightarrow> real \<Rightarrow> real" where
  "spec_d1_futures F K T sigma = (ln (F / K) + 0.5 * sigma\<^sup>2 * T) / (sigma * sqrt T)"

definition spec_price_spot :: "real \<Rightarrow> real \<Rightarrow> real \<Rightarrow> real \<Rightarrow> real \<Rightarrow> string \<Rightarrow> real" where
  "spec_price_spot S K T r sigma option_type =
     (let d1 = spec_d1_spot S K T r sigma;
          d2 = d1 - sigma * sqrt T
      in if option_type = ''call''
         then S * norm_cdf d1 - K * exp (- (r * T)) * norm_cdf d2
         else K * exp (- (r * T)) * norm_cdf (- d2) - S * norm_cdf (- d1))"

definition spec_price_futures :: "real \<Rightarrow> real \<Rightarrow> real \<Rightarrow> real \<Rightarrow> real \<Rightarrow> string \<Rightarrow> real" where
  "spec_price_futures F K T r sigma option_type =
     (let d1 = spec_d1_futures F K T sigma;
          d2 = d1 - sigma * sqrt T;
          df = exp (- (r * T))
      in if option_type = ''call''
         then df * (F * norm_cdf d1 - K * norm_cdf d2)
         else df * (K * norm_cdf (- d2) - F * norm_cdf (- d1)))"

text \<open>The value of a spot call as a function of the volatility alone.\<close>

definition call_value :: "real \<Rightarrow> real \<Rightarrow> real \<Rightarrow> real \<Rightarrow> real \<Rightarrow> real" where
  "call_value S K T r sigma =
     S * norm_cdf ((ln (S / K) + (r + 0.5 * sigma\<^sup>2) * T) / (sigma * sqrt T))
     - K * exp (- r * T)
         * norm_cdf ((ln (S / K) + (r + 0.5 * sigma\<^sup>2) * T) / (sigma * sqrt T) - sigma * sqrt T)"

text \<open>
  The Theta of the futures model as the specification describes it: the pattern of the
  spot model with \<open>F\<close> for \<open>S\<close> and the discount factor applied, per day.
\<close>

definition spec_theta_futures :: "real \<Rightarrow> real \<Rightarrow> real \<Rightarrow> real \<Rightarrow> real \<Rightarrow> string \<Rightarrow> real" where
  "spec_theta_futures F K T r sigma option_type =
     (let d1 = spec_d1_futures F K T sigma;
          d2 = d1 - sigma * sqrt T;
          df = exp (- (r * T))
      in if option_type = ''call''
         then (- F * norm_pdf d1 * sigma * df / (2 * sqrt T) - r * K * df * norm_cdf d2) / 365
         else (- F * norm_pdf d1 * sigma * df / (2 * sqrt T) + r * K * df * norm_cdf (- d2)) / 365)"

subsection \<open>The root finder as the solver calls it\<close>

text \<open>The objective that the solver of a model hands to the root finder.\<close>

definition solver_objective ::
  "string \<Rightarrow> real \<Rightarrow> real \<Rightarrow> real \<Rightarrow> real \<Rightarrow> real \<Rightarrow> string \<Rightarrow> real \<Rightarrow> error + real" where
  "solver_objective model market_price S_or_F K T r option_type =
     (if model = ''spot'' then bs_objective_function market_price S_or_F K T r option_type
      else b76_objective_function market_price S_or_F K T r option_type)"

text \<open>A root finder that returns a given point, for concrete runs.\<close>

definition brentq_returning :: "real \<Rightarrow> root_finder" where
  "brentq_returning x f a b = Inr x"

subsection \<open>The functions with norm.cdf as a parameter, and norm.cdf on doubles\<close>

text \<open>
  The prices and the solvers once more, with the distribution function that they call
  as a parameter \<open>cdf\<close>; the bodies are those above, and with \<open>norm_cdf\<close> for \<open>cdf\<close> they
  are the functions above (lemmas \<open>with_norm_cdf\<close> and \<open>solver_with_norm_cdf\<close>).
\<close>

definition black_scholes_with ::
  "(real \<Rightarrow> real) \<Rightarrow> real \<Rightarrow> real \<Rightarrow> real \<Rightarrow> real \<Rightarrow> real \<Rightarrow> string \<Rightarrow> error + real" where
  "black_scholes_with cdf S K T r sigma option_type =
     (case py_truediv S K of
        Inl e \<Rightarrow> Inl e
      | Inr q \<Rightarrow>
          let d1 = (ln q + (r + 0.5 * sigma\<^sup>2) * T) / (sigma * sqrt T);
              d2 = d1 - sigma * sqrt T
          in if option_type = ''call'' then
               Inr (S * cdf d1 - K * exp (- r * T) * cdf d2)
             else if option_type = ''put'' then
               Inr (K * exp (- r * T) * cdf (- d2) - S * cdf (- d1))
             else Inl ValueError)"

definition black_76_with ::
  "(real \<Rightarrow> real) \<Rightarrow> real \<Rightarrow> real \<Rightarrow> real \<Rightarrow> real \<Rightarrow> real \<Rightarrow> string \<Rightarrow> error + real" where
  "black_76_with cdf F K T r sigma option_type =
     (case py_truediv F K of
        Inl e \<Rightarrow> Inl e
      | Inr q \<Rightarrow>
          let d1 = (ln q + 0.5 * sigma\<^sup>2 * T) / (sigma * sqrt T);
              d2 = d1 - sigma * sqrt T;
              df = exp (- r * T)
          in if option_type = ''call'' then
               Inr (df * (F * cdf d1 - K * cdf d2))
             else if option_type = ''put'' then
               Inr (df * (K * cdf (- d2) - F * cdf (- d1)))
             else Inl ValueError)"

definition price_option_with ::
  "(real \<Rightarrow> real) \<Rightarrow> string \<Rightarrow> real \<Rightarrow> real \<Rightarrow> real \<Rightarrow> real \<Rightarrow> real \<Rightarrow> string \<Rightarrow> error + real" where
  "price_option_with cdf model S_or_F K T r sigma option_type =
     (if model = ''spot'' then black_scholes_with cdf S_or_F K T r sigma option_type
      else if model = ''futures'' then black_76_with cdf S_or_F K T r sigma option_type
      else Inl ValueError)"

definition bs_objective_function_with ::
  "(real \<Rightarrow> real) \<Rightarrow> real \<Rightarrow> real \<Rightarrow> real \<Rightarrow> real \<Rightarrow> real \<Rightarrow> string \<Rightarrow> real \<Rightarrow> error + real" where
  "bs_objective_function_with cdf option_market_price S K T r option_type sigma =
     (case black_scholes_with cdf S K T r sigma option_type of
        Inl e \<Rightarrow> Inl e
      | Inr p \<Rightarrow> Inr (p - option_market_price))"

definition b76_objective_function_with ::
  "(real \<Rightarrow> real) \<Rightarrow> real \<Rightarrow> real \<Rightarrow> real \<Rightarrow> real \<Rightarrow> real \<Rightarrow> string \<Rightarrow> real \<Rightarrow> error + real" where
  "b76_objective_function_with cdf option_market_price F K T r option_type sigma =
     (case black_76_with cdf F K T r sigma option_type of
        Inl e \<Rightarrow> Inl e
      | Inr p \<Rightarrow> Inr (p - option_market_price))"

definition implied_volatility_with ::
  "(real \<Rightarrow> real) \<Rightarrow> root_finder \<Rightarrow> real \<Rightarrow> real \<Rightarrow> real \<Rightarrow> real \<Rightarrow> real \<Rightarrow> string
     \<Rightarrow> error + real option" where
  "implied_volatility_with cdf brentq option_market_price S K T r option_type =
     except_ValueError
       (case black_scholes_with cdf S K T r 0.0001 option_type of
          Inl e \<Rightarrow> Inl e
        | Inr test_low \<Rightarrow>
            (case black_scholes_with cdf S K T r 3.0 option_type of
               Inl e \<Rightarrow> Inl e
             | Inr test_high \<Rightarrow>
                 if \<not> (test_low \<le> option_market_price \<and> option_market_price \<le> test_high)
                 then Inr None
                 else (case brentq
                              (bs_objective_function_with cdf option_market_price S K T r option_type)
                              0.0001 3.0 of
                         Inl e \<Rightarrow> Inl e
                       | Inr implied_vol \<Rightarrow> Inr (Some (py_round implied_vol 4)))))"

definition implied_volatility_black76_with ::
  "(real \<Rightarrow> real) \<Rightarrow> root_finder \<Rightarrow> real \<Rightarrow> real \<Rightarrow> real \<Rightarrow> real \<Rightarrow> real \<Rightarrow> string
     \<Rightarrow> error + real option" where
  "implied_volatility_black76_with cdf brentq option_market_price F K T r option_type =
     except_ValueError
       (case black_76_with cdf F K T r 0.0001 option_type of
          Inl e \<Rightarrow> Inl e
        | Inr test_low \<Rightarrow>
            (case black_76_with cdf F K T r 3.0 option_type of
               Inl e \<Rightarrow> Inl e
             | Inr test_high \<Rightarrow>
                 if \<not> (test_low \<le> option_market_price \<and> option_market_price \<le> test_high)
                 then Inr None
                 else (case brentq
                              (b76_objective_function_with cdf option_market_price F K T r option_type)
                              0.0001 3.0 of
                         Inl e \<Rightarrow> Inl e
                       | Inr implied_vol \<Rightarrow> Inr (Some (py_round implied_vol 4)))))"

definition get_implied_volatility_with ::
  "(real \<Rightarrow> real) \<Rightarrow> root_finder \<Rightarrow> string \<Rightarrow> real \<Rightarrow> real \<Rightarrow> real \<Rightarrow> real \<Rightarrow> real \<Rightarrow> string
     \<Rightarrow> error + real option" where
  "get_implied_volatility_with cdf brentq model market_price S_or_F K T r option_type =
     (if model = ''spot'' then
        implied_volatility_with cdf brentq market_price S_or_F K T r option_type
      else if model = ''futures'' then
        implied_volatility_black76_with cdf brentq market_price S_or_F K T r option_type
      else Inl ValueError)"

text \<open>
  \<open>norm.cdf\<close> returns a double. From \<open>x = 9\<close> upward \<open>1 - \<Phi>(x)\<close> is below \<open>2\<^sup>-\<^sup>5\<^sup>4\<close>, less than
  half the distance from 1.0 to the double below it, and the double that \<open>norm.cdf\<close>
  returns is exactly 1.0 (it is so from about 8.3). \<open>norm_cdf_double\<close> records this one
  effect and is the exact function elsewhere.
\<close>

definition norm_cdf_double :: "real \<Rightarrow> real" where
  "norm_cdf_double x = (if 9 \<le> x then 1 else norm_cdf x)"

section \<open>The normal distribution function\<close>

text \<open>The series of \<open>gauss_integral\<close> converges everywhere, and its sum is an
  antiderivative of \<open>exp (- x\<^sup>2 / 2)\<close>.\<close>

lemma cdf_coeff_summable: "summable (\<lambda>n. cdf_coeff n * y ^ n)"
proof (rule summable_comparison_test[OF _ summable_exp[of "\<bar>y\<bar>"]], intro exI allI impI)
  fix n :: nat
  have "norm (cdf_coeff n * y ^ n) = \<bar>y\<bar> ^ n / (2 ^ n * fact n * (2 * real n + 1))"
    by (simp add: cdf_coeff_def abs_mult power_abs power_divide abs_divide)
  also have "\<dots> \<le> \<bar>y\<bar> ^ n / fact n"
  proof (rule divide_left_mono)
    have "1 * (fact n * 1) \<le> (2::real) ^ n * (fact n * (2 * real n + 1))"
      by (intro mult_mono) simp_all
    then show "(fact n :: real) \<le> 2 ^ n * fact n * (2 * real n + 1)"
      by (simp add: mult.assoc)
  qed simp_all
  finally show "norm (cdf_coeff n * y ^ n) \<le> inverse (fact n) * \<bar>y\<bar> ^ n"
    by (simp add: field_simps)
qed

lemma cdf_series_deriv:
  "DERIV (\<lambda>y. \<Sum>n. cdf_coeff n * y ^ n) y :> (\<Sum>n. diffs cdf_coeff n * y ^ n)"
  by (rule termdiffs_strong_converges_everywhere) (rule cdf_coeff_summable)

lemma cdf_series_ode:
  "(\<Sum>n. cdf_coeff n * y ^ n) + 2 * y * (\<Sum>n. diffs cdf_coeff n * y ^ n) = exp (- y / 2)"
proof -
  have s0: "(\<lambda>n. cdf_coeff n * y ^ n) sums (\<Sum>n. cdf_coeff n * y ^ n)"
    by (rule summable_sums[OF cdf_coeff_summable])
  have "summable (\<lambda>n. diffs cdf_coeff n * y ^ n)"
    by (rule termdiff_converges_all) (rule cdf_coeff_summable)
  then have "(\<lambda>n. of_nat n * cdf_coeff n * y ^ (n - Suc 0)) sums (\<Sum>n. diffs cdf_coeff n * y ^ n)"
    by (rule diffs_equiv)
  then have "(\<lambda>n. (2 * y) * (of_nat n * cdf_coeff n * y ^ (n - Suc 0)))
      sums (2 * y * (\<Sum>n. diffs cdf_coeff n * y ^ n))"
    by (rule sums_mult)
  moreover have "(\<lambda>n. (2 * y) * (of_nat n * cdf_coeff n * y ^ (n - Suc 0)))
      = (\<lambda>n. 2 * real n * cdf_coeff n * y ^ n)"
  proof
    fix n show "(2 * y) * (of_nat n * cdf_coeff n * y ^ (n - Suc 0)) = 2 * real n * cdf_coeff n * y ^ n"
      by (cases n) simp_all
  qed
  ultimately have s1: "(\<lambda>n. 2 * real n * cdf_coeff n * y ^ n)
      sums (2 * y * (\<Sum>n. diffs cdf_coeff n * y ^ n))"
    by simp
  have "(\<lambda>n. cdf_coeff n * y ^ n + 2 * real n * cdf_coeff n * y ^ n)
      sums ((\<Sum>n. cdf_coeff n * y ^ n) + 2 * y * (\<Sum>n. diffs cdf_coeff n * y ^ n))"
    by (rule sums_add[OF s0 s1])
  moreover have "(\<lambda>n. cdf_coeff n * y ^ n + 2 * real n * cdf_coeff n * y ^ n)
      = (\<lambda>n. (- y / 2) ^ n /\<^sub>R fact n)"
  proof
    fix n
    have "(2 * real n + 1) \<noteq> 0" by (simp add: add_nonneg_eq_0_iff)
    moreover have "cdf_coeff n = ((- 1 / 2) ^ n / fact n) / (2 * real n + 1)"
      by (simp add: cdf_coeff_def)
    ultimately have c: "(1 + 2 * real n) * cdf_coeff n = (- 1 / 2) ^ n / fact n"
      by (simp add: add.commute)
    have "cdf_coeff n * y ^ n + 2 * real n * cdf_coeff n * y ^ n
        = ((1 + 2 * real n) * cdf_coeff n) * y ^ n"
      by (simp add: algebra_simps)
    also have "\<dots> = (- 1 / 2) ^ n / fact n * y ^ n"
      by (simp only: c)
    also have "\<dots> = (- y / 2) ^ n /\<^sub>R fact n"
    proof -
      have "- y / 2 = (- 1 / 2) * y" by simp
      then have e: "(- y / 2) ^ n = (- 1 / 2) ^ n * y ^ n"
        by (simp only: power_mult_distrib)
      have "(- y / 2) ^ n /\<^sub>R fact n = inverse (fact n) * ((- 1 / 2) ^ n * y ^ n)"
        by (simp only: e real_scaleR_def)
      also have "\<dots> = (- 1 / 2) ^ n / fact n * y ^ n"
        by (simp only: divide_inverse mult_ac)
      finally show ?thesis by (rule sym)
    qed
    finally show "cdf_coeff n * y ^ n + 2 * real n * cdf_coeff n * y ^ n = (- y / 2) ^ n /\<^sub>R fact n" .
  qed
  ultimately have "(\<lambda>n. (- y / 2) ^ n /\<^sub>R fact n)
      sums ((\<Sum>n. cdf_coeff n * y ^ n) + 2 * y * (\<Sum>n. diffs cdf_coeff n * y ^ n))"
    by simp
  then show ?thesis
    using exp_converges[of "- y / 2"] sums_unique2 by blast
qed

lemma gauss_integral_deriv: "DERIV gauss_integral x :> exp (- x\<^sup>2 / 2)"
proof -
  let ?H = "\<lambda>y. \<Sum>n. cdf_coeff n * y ^ n"
  let ?H' = "\<lambda>y. \<Sum>n. diffs cdf_coeff n * y ^ n"
  have "DERIV (\<lambda>x. ?H (x\<^sup>2)) x :> ?H' (x\<^sup>2) * (2 * x)"
    by (rule DERIV_chain'[OF _ cdf_series_deriv]) (auto intro!: derivative_eq_intros)
  then have "DERIV (\<lambda>x. x * ?H (x\<^sup>2)) x :> 1 * ?H (x\<^sup>2) + x * (?H' (x\<^sup>2) * (2 * x))"
    by (auto intro!: derivative_eq_intros)
  moreover have "1 * ?H (x\<^sup>2) + x * (?H' (x\<^sup>2) * (2 * x)) = exp (- x\<^sup>2 / 2)"
    using cdf_series_ode[of "x\<^sup>2"] by (simp add: power2_eq_square mult_ac)
  moreover have "gauss_integral = (\<lambda>x. x * ?H (x\<^sup>2))"
    by (rule ext) (simp add: gauss_integral_def)
  ultimately show ?thesis by simp
qed

lemma gauss_integral_odd: "gauss_integral (- x) = - gauss_integral x"
  by (simp add: gauss_integral_def)

lemma norm_cdf_deriv: "DERIV norm_cdf x :> norm_pdf x"
proof -
  have "DERIV (\<lambda>x. gauss_integral x / sqrt (2 * pi)) x :> exp (- x\<^sup>2 / 2) / sqrt (2 * pi)"
    by (rule DERIV_cdivide) (rule gauss_integral_deriv)
  then have "DERIV (\<lambda>x. 1 / 2 + gauss_integral x / sqrt (2 * pi)) x
      :> 0 + exp (- x\<^sup>2 / 2) / sqrt (2 * pi)"
    by (intro DERIV_add DERIV_const)
  moreover have "norm_cdf = (\<lambda>x. 1 / 2 + gauss_integral x / sqrt (2 * pi))"
    by (rule ext) (simp add: norm_cdf_def)
  ultimately show ?thesis by (simp add: norm_pdf_def)
qed

lemma norm_cdf_0: "norm_cdf 0 = 1 / 2"
  by (simp add: norm_cdf_def gauss_integral_def)

lemma norm_cdf_minus: "norm_cdf (- x) = 1 - norm_cdf x"
  by (simp add: norm_cdf_def gauss_integral_odd)

lemma norm_pdf_pos: "0 < norm_pdf x"
  by (simp add: norm_pdf_def)

lemma norm_cdf_strict_mono: "x < y \<Longrightarrow> norm_cdf x < norm_cdf y"
  by (rule DERIV_pos_imp_increasing) (auto intro: norm_cdf_deriv norm_pdf_pos)

section \<open>Vega: the call value increases with the volatility\<close>

lemma norm_pdf_shift:
  assumes "0 < S" "0 < K" "0 < w"
    and wd: "w * d = ln (S / K) + c + w\<^sup>2 / 2"
  shows "K * exp (- c) * norm_pdf (d - w) = S * norm_pdf d"
proof -
  have "- (d - w)\<^sup>2 / 2 = - d\<^sup>2 / 2 + (w * d - w\<^sup>2 / 2)"
    by (simp add: power2_diff field_simps)
  also have "\<dots> = - d\<^sup>2 / 2 + (ln (S / K) + c)"
    by (simp add: wd)
  finally have "exp (- (d - w)\<^sup>2 / 2) = exp (- d\<^sup>2 / 2) * (exp (ln (S / K)) * exp c)"
    by (simp only: exp_add)
  also have "exp (ln (S / K)) = S / K"
    using assms by simp
  finally have e: "exp (- (d - w)\<^sup>2 / 2) = exp (- d\<^sup>2 / 2) * (S / K * exp c)" .
  have "K * exp (- c) * norm_pdf (d - w)
      = K * exp (- c) * (exp (- d\<^sup>2 / 2) * (S / K * exp c)) / sqrt (2 * pi)"
    by (simp only: norm_pdf_def e times_divide_eq_right)
  also have "\<dots> = S * (exp (- c) * exp c) * (exp (- d\<^sup>2 / 2) / sqrt (2 * pi))"
    using \<open>0 < K\<close> by simp
  also have "exp (- c) * exp c = 1"
    by (simp add: exp_minus)
  finally show ?thesis
    by (simp add: norm_pdf_def)
qed

lemma d1_differentiable:
  "0 < T \<Longrightarrow> 0 < sigma \<Longrightarrow>
     \<exists>D. DERIV (\<lambda>s. (a + (r + 0.5 * s\<^sup>2) * T) / (s * sqrt T)) sigma :> D"
proof -
  assume "0 < T" "0 < sigma"
  then have "(\<lambda>s. (a + (r + 0.5 * s\<^sup>2) * T) / (s * sqrt T)) differentiable (at sigma)"
    by (auto intro!: derivative_intros)
  then show ?thesis
    by (simp add: real_differentiable_def)
qed

lemma call_value_deriv:
  assumes "0 < S" "0 < K" "0 < T" "0 < sigma"
  shows "DERIV (call_value S K T r) sigma
           :> S * norm_pdf ((ln (S / K) + (r + 0.5 * sigma\<^sup>2) * T) / (sigma * sqrt T)) * sqrt T"
proof -
  define d1 where "d1 = (\<lambda>s. (ln (S / K) + (r + 0.5 * s\<^sup>2) * T) / (s * sqrt T))"
  define w where "w = sigma * sqrt T"
  have w: "0 < w" using assms by (simp add: w_def)
  have "\<exists>D. DERIV d1 sigma :> D"
    unfolding d1_def by (rule d1_differentiable[OF assms(3,4)])
  then obtain D where D1: "DERIV d1 sigma :> D" by blast
  have D2: "DERIV (\<lambda>s. d1 s - s * sqrt T) sigma :> D - 1 * sqrt T"
  proof (rule DERIV_diff[OF D1])
    show "DERIV (\<lambda>s. s * sqrt T) sigma :> 1 * sqrt T"
      by (rule DERIV_cmult_right) (rule DERIV_ident)
  qed
  have C1: "DERIV (\<lambda>s. norm_cdf (d1 s)) sigma :> norm_pdf (d1 sigma) * D"
    by (rule DERIV_chain2[OF norm_cdf_deriv D1])
  have C2: "DERIV (\<lambda>s. norm_cdf (d1 s - s * sqrt T)) sigma
      :> norm_pdf (d1 sigma - sigma * sqrt T) * (D - 1 * sqrt T)"
    by (rule DERIV_chain2[OF norm_cdf_deriv D2])
  have "DERIV (\<lambda>s. S * norm_cdf (d1 s) - K * exp (- r * T) * norm_cdf (d1 s - s * sqrt T)) sigma
      :> S * (norm_pdf (d1 sigma) * D)
         - K * exp (- r * T) * (norm_pdf (d1 sigma - sigma * sqrt T) * (D - 1 * sqrt T))"
    by (intro DERIV_diff DERIV_cmult C1 C2)
  moreover have "(\<lambda>s. S * norm_cdf (d1 s) - K * exp (- r * T) * norm_cdf (d1 s - s * sqrt T))
      = call_value S K T r"
    by (rule ext) (simp add: call_value_def d1_def)
  moreover have "S * (norm_pdf (d1 sigma) * D)
         - K * exp (- r * T) * (norm_pdf (d1 sigma - sigma * sqrt T) * (D - 1 * sqrt T))
      = S * norm_pdf (d1 sigma) * sqrt T"
  proof -
    have "w * d1 sigma = ln (S / K) + (r + 0.5 * sigma\<^sup>2) * T"
      using assms by (simp add: d1_def w_def)
    also have "\<dots> = ln (S / K) + r * T + w\<^sup>2 / 2"
      using assms by (simp add: w_def power_mult_distrib algebra_simps)
    finally have "K * exp (- (r * T)) * norm_pdf (d1 sigma - w) = S * norm_pdf (d1 sigma)"
      using assms w by (intro norm_pdf_shift) auto
    then have "K * exp (- r * T) * norm_pdf (d1 sigma - sigma * sqrt T) = S * norm_pdf (d1 sigma)"
      by (simp add: w_def)
    then have "K * exp (- r * T) * (norm_pdf (d1 sigma - sigma * sqrt T) * (D - 1 * sqrt T))
        = S * norm_pdf (d1 sigma) * (D - 1 * sqrt T)"
      by (simp only: mult.assoc[symmetric])
    then show ?thesis
      by (simp add: algebra_simps)
  qed
  ultimately show ?thesis
    by (simp add: d1_def)
qed

lemma call_value_strict_mono:
  assumes "0 < S" "0 < K" "0 < T" "0 < s1" "s1 < s2"
  shows "call_value S K T r s1 < call_value S K T r s2"
proof (rule DERIV_pos_imp_increasing[OF \<open>s1 < s2\<close>])
  fix x assume "s1 \<le> x" "x \<le> s2"
  then have "0 < x" using assms by simp
  let ?y = "S * norm_pdf ((ln (S / K) + (r + 0.5 * x\<^sup>2) * T) / (x * sqrt T)) * sqrt T"
  have "DERIV (call_value S K T r) x :> ?y"
    by (rule call_value_deriv[OF assms(1-3) \<open>0 < x\<close>])
  moreover have "0 < ?y"
    using assms by (simp add: norm_pdf_pos)
  ultimately show "\<exists>y. DERIV (call_value S K T r) x :> y \<and> 0 < y"
    by blast
qed

section \<open>The prices in terms of the call value\<close>

lemma black_scholes_call:
  "K \<noteq> 0 \<Longrightarrow> black_scholes S K T r sigma ''call'' = Inr (call_value S K T r sigma)"
  by (simp add: black_scholes_def py_truediv_def call_value_def Let_def)

lemma black_scholes_put:
  "K \<noteq> 0 \<Longrightarrow> black_scholes S K T r sigma ''put''
     = Inr (call_value S K T r sigma - S + K * exp (- r * T))"
  by (simp add: black_scholes_def py_truediv_def call_value_def Let_def norm_cdf_minus algebra_simps)

lemma black_76_call:
  "K \<noteq> 0 \<Longrightarrow> black_76 F K T r sigma ''call'' = Inr (exp (- r * T) * call_value F K T 0 sigma)"
  by (simp add: black_76_def py_truediv_def call_value_def Let_def)

lemma black_76_put:
  "K \<noteq> 0 \<Longrightarrow> black_76 F K T r sigma ''put''
     = Inr (exp (- r * T) * (call_value F K T 0 sigma - F + K))"
  by (simp add: black_76_def py_truediv_def call_value_def Let_def norm_cdf_minus algebra_simps)

text \<open>The four prices in one: a positive factor times the call value, plus a term that
  does not depend on the volatility.\<close>

lemma price_option_affine:
  assumes "K \<noteq> 0" "model = ''spot'' \<or> model = ''futures''"
    "option_type = ''call'' \<or> option_type = ''put''"
  shows "\<exists>a b r'. 0 < a \<and> (\<forall>sigma. price_option model S K T r sigma option_type
            = Inr (a * call_value S K T r' sigma + b))"
proof -
  consider "model = ''spot''" "option_type = ''call''" | "model = ''spot''" "option_type = ''put''"
    | "model = ''futures''" "option_type = ''call''" | "model = ''futures''" "option_type = ''put''"
    using assms by blast
  then show ?thesis
  proof cases
    case 1
    then have "\<forall>sigma. price_option model S K T r sigma option_type
        = Inr (1 * call_value S K T r sigma + 0)"
      using assms(1) by (simp add: price_option_def black_scholes_call)
    then show ?thesis by (intro exI[of _ 1] exI[of _ 0] exI[of _ r]) simp
  next
    case 2
    then have "\<forall>sigma. price_option model S K T r sigma option_type
        = Inr (1 * call_value S K T r sigma + (K * exp (- r * T) - S))"
      using assms(1) by (simp add: price_option_def black_scholes_put)
    then show ?thesis by (intro exI[of _ 1] exI[of _ "K * exp (- r * T) - S"] exI[of _ r]) simp
  next
    case 3
    then have "\<forall>sigma. price_option model S K T r sigma option_type
        = Inr (exp (- r * T) * call_value S K T 0 sigma + 0)"
      using assms(1) by (simp add: price_option_def black_76_call)
    then show ?thesis by (intro exI[of _ "exp (- r * T)"] exI[of _ 0] exI[of _ 0]) simp
  next
    case 4
    then have "\<forall>sigma. price_option model S K T r sigma option_type
        = Inr (exp (- r * T) * call_value S K T 0 sigma + exp (- r * T) * (K - S))"
      using assms(1) by (simp add: price_option_def black_76_put algebra_simps)
    then show ?thesis
      by (intro exI[of _ "exp (- r * T)"] exI[of _ "exp (- r * T) * (K - S)"] exI[of _ 0]) simp
  qed
qed

lemma price_option_strict_mono:
  assumes "0 < S" "0 < K" "0 < T" "0 < s1" "s1 < s2"
    and "model = ''spot'' \<or> model = ''futures''"
    and "option_type = ''call'' \<or> option_type = ''put''"
  shows "\<exists>p1 p2. price_option model S K T r s1 option_type = Inr p1
           \<and> price_option model S K T r s2 option_type = Inr p2 \<and> p1 < p2"
proof -
  from price_option_affine[of K model option_type S T r] assms
  obtain a b r' where a: "0 < a"
    and p: "\<And>sigma. price_option model S K T r sigma option_type
              = Inr (a * call_value S K T r' sigma + b)"
    by auto
  have "call_value S K T r' s1 < call_value S K T r' s2"
    using assms by (intro call_value_strict_mono)
  with a have "a * call_value S K T r' s1 + b < a * call_value S K T r' s2 + b"
    by simp
  then show ?thesis
    using p by blast
qed

text \<open>A zero strike raises \<open>ZeroDivisionError\<close> before the option type is looked at.\<close>

lemma zero_strike_raises:
  "black_scholes S 0 T r sigma option_type = Inl ZeroDivisionError"
  "black_76 F 0 T r sigma option_type = Inl ZeroDivisionError"
  by (simp_all add: black_scholes_def black_76_def py_truediv_def)

section \<open>The functions with norm.cdf as a parameter\<close>

lemma with_norm_cdf:
  "black_scholes_with norm_cdf = black_scholes"
  "black_76_with norm_cdf = black_76"
  "price_option_with norm_cdf = price_option"
  by (intro ext, simp add: black_scholes_with_def black_scholes_def black_76_with_def
      black_76_def price_option_with_def price_option_def)+

lemma objective_with_norm_cdf:
  "bs_objective_function_with norm_cdf = bs_objective_function"
  "b76_objective_function_with norm_cdf = b76_objective_function"
  by (intro ext, simp add: bs_objective_function_with_def bs_objective_function_def
      b76_objective_function_with_def b76_objective_function_def with_norm_cdf)+

lemma solver_with_norm_cdf:
  "implied_volatility_with norm_cdf = implied_volatility"
  "implied_volatility_black76_with norm_cdf = implied_volatility_black76"
  "get_implied_volatility_with norm_cdf = get_implied_volatility"
  unfolding fun_eq_iff get_implied_volatility_with_def get_implied_volatility_def
    implied_volatility_with_def implied_volatility_def
    implied_volatility_black76_with_def implied_volatility_black76_def
    with_norm_cdf objective_with_norm_cdf
  by simp_all

lemma ln_2_ge_half: "1 / 2 \<le> ln (2::real)"
proof -
  have "exp (1 / 2 :: real) * exp (1 / 2) = exp 1"
    by (simp add: exp_add[symmetric])
  then have "(exp (1 / 2 :: real))\<^sup>2 \<le> 2\<^sup>2"
    using exp_le by (simp add: power2_eq_square)
  then have "exp (1 / 2 :: real) \<le> 2"
    by (rule power2_le_imp_le) simp
  then have "ln (exp (1 / 2 :: real)) \<le> ln 2"
    by (subst ln_le_cancel_iff) simp_all
  then show ?thesis by simp
qed

text \<open>Deep in the money (\<open>S = 100\<close>, \<open>K = 50\<close>, \<open>T = 1\<close>, \<open>r = 0\<close>) and for a volatility of
  at most 0.05, both \<open>d1\<close> and \<open>d2\<close> are above 9.\<close>

lemma deep_in_the_money_d:
  assumes "0 < sigma" "sigma \<le> 1 / 20"
  shows "9 \<le> (ln 2 + (0 + 0.5 * sigma\<^sup>2) * 1) / (sigma * sqrt 1) - sigma * sqrt 1"
    and "9 \<le> (ln 2 + (0 + 0.5 * sigma\<^sup>2) * 1) / (sigma * sqrt 1)"
proof -
  have "1 / 2 \<le> ln 2 + 0.5 * sigma\<^sup>2"
    using ln_2_ge_half by (simp add: add_increasing2)
  then have "(1 / 2) / sigma \<le> (ln 2 + 0.5 * sigma\<^sup>2) / sigma"
    using assms by (intro divide_right_mono) simp_all
  moreover have "(1 / 2) / (1 / 20) \<le> (1 / 2) / sigma"
    using assms by (intro divide_left_mono) simp_all
  ultimately have d: "10 \<le> (ln 2 + 0.5 * sigma\<^sup>2) / sigma"
    by simp
  then show "9 \<le> (ln 2 + (0 + 0.5 * sigma\<^sup>2) * 1) / (sigma * sqrt 1) - sigma * sqrt 1"
    using assms by simp
  from d show "9 \<le> (ln 2 + (0 + 0.5 * sigma\<^sup>2) * 1) / (sigma * sqrt 1)"
    by simp
qed

lemma deep_in_the_money_price:
  assumes "0 < sigma" "sigma \<le> 1 / 20"
  shows "black_scholes_with norm_cdf_double 100 50 1 0 sigma ''call'' = Inr 50"
  using deep_in_the_money_d[OF assms]
  by (simp add: black_scholes_with_def py_truediv_def Let_def norm_cdf_double_def)

section \<open>Prices\<close>

text \<open>
  Claim C1. For positive \<open>S\<close>, \<open>K\<close>, \<open>T\<close> and \<open>sigma\<close>, any rate and an option type
  among call and put, the price of the spot model is the dividendless Black-Scholes
  closed form and the price of the futures model is the Black-76 closed form, as the
  specification writes them.
\<close>

theorem price_matches_closed_forms:
  assumes "0 < S" "0 < K" "0 < T" "0 < sigma"
    and "option_type = ''call'' \<or> option_type = ''put''"
  shows "price_option ''spot'' S K T r sigma option_type
           = Inr (spec_price_spot S K T r sigma option_type)
       \<and> price_option ''futures'' S K T r sigma option_type
           = Inr (spec_price_futures S K T r sigma option_type)"
  using assms
  by (auto simp: price_option_def black_scholes_def black_76_def py_truediv_def Let_def
      spec_price_spot_def spec_price_futures_def spec_d1_spot_def spec_d1_futures_def)

theorem price_matches_closed_forms_witness:
  "price_option ''spot'' 100 100 1 (3 / 100) (1 / 5) ''put''
           = Inr (spec_price_spot 100 100 1 (3 / 100) (1 / 5) ''put'')
       \<and> price_option ''futures'' 100 100 1 (3 / 100) (1 / 5) ''put''
           = Inr (spec_price_futures 100 100 1 (3 / 100) (1 / 5) ''put'')"
  using price_matches_closed_forms[of 100 100 1 "1 / 5" "''put''" "3 / 100"] by simp

text \<open>
  Claim C3. Put-call parity: with the same positive \<open>S\<close> (or \<open>F\<close>), \<open>K\<close>, \<open>T\<close>,
  \<open>sigma\<close> and any rate, the call price minus the put price is \<open>S - K e\<^sup>-\<^sup>r\<^sup>T\<close> in the
  spot model and \<open>df (F - K)\<close> in the futures model. On the reals the two sides are
  equal, so they agree within the tolerance \<open>10\<^sup>-\<^sup>6\<close> as well.
\<close>

theorem put_call_parity:
  assumes "0 < S" "0 < K" "0 < T" "0 < sigma"
  shows "(\<exists>c p. price_option ''spot'' S K T r sigma ''call'' = Inr c
             \<and> price_option ''spot'' S K T r sigma ''put'' = Inr p
             \<and> c - p = S - K * exp (- (r * T))
             \<and> \<bar>(c - p) - (S - K * exp (- (r * T)))\<bar> \<le> 1 / 10 ^ 6)
       \<and> (\<exists>c p. price_option ''futures'' S K T r sigma ''call'' = Inr c
             \<and> price_option ''futures'' S K T r sigma ''put'' = Inr p
             \<and> c - p = exp (- (r * T)) * (S - K)
             \<and> \<bar>(c - p) - exp (- (r * T)) * (S - K)\<bar> \<le> 1 / 10 ^ 6)"
proof
  have K: "K \<noteq> 0" using assms by simp
  let ?c = "call_value S K T r sigma"
  have "price_option ''spot'' S K T r sigma ''call'' = Inr ?c"
    and "price_option ''spot'' S K T r sigma ''put'' = Inr (?c - S + K * exp (- r * T))"
    by (simp_all add: price_option_def black_scholes_call[OF K] black_scholes_put[OF K])
  then show "\<exists>c p. price_option ''spot'' S K T r sigma ''call'' = Inr c
             \<and> price_option ''spot'' S K T r sigma ''put'' = Inr p
             \<and> c - p = S - K * exp (- (r * T))
             \<and> \<bar>(c - p) - (S - K * exp (- (r * T)))\<bar> \<le> 1 / 10 ^ 6"
    by (intro exI[of _ ?c] exI[of _ "?c - S + K * exp (- r * T)"]) simp
  let ?d = "call_value S K T 0 sigma"
  have "price_option ''futures'' S K T r sigma ''call'' = Inr (exp (- r * T) * ?d)"
    and "price_option ''futures'' S K T r sigma ''put'' = Inr (exp (- r * T) * (?d - S + K))"
    by (simp_all add: price_option_def black_76_call[OF K] black_76_put[OF K])
  then show "\<exists>c p. price_option ''futures'' S K T r sigma ''call'' = Inr c
             \<and> price_option ''futures'' S K T r sigma ''put'' = Inr p
             \<and> c - p = exp (- (r * T)) * (S - K)
             \<and> \<bar>(c - p) - exp (- (r * T)) * (S - K)\<bar> \<le> 1 / 10 ^ 6"
    by (intro exI[of _ "exp (- r * T) * ?d"] exI[of _ "exp (- r * T) * (?d - S + K)"])
      (simp add: algebra_simps)
qed

theorem put_call_parity_witness:
  "(\<exists>c p. price_option ''spot'' 105 100 1 (3 / 100) (1 / 5) ''call'' = Inr c
             \<and> price_option ''spot'' 105 100 1 (3 / 100) (1 / 5) ''put'' = Inr p
             \<and> c - p = 105 - 100 * exp (- (3 / 100 * 1))
             \<and> \<bar>(c - p) - (105 - 100 * exp (- (3 / 100 * 1)))\<bar> \<le> 1 / 10 ^ 6)
       \<and> (\<exists>c p. price_option ''futures'' 105 100 1 (3 / 100) (1 / 5) ''call'' = Inr c
             \<and> price_option ''futures'' 105 100 1 (3 / 100) (1 / 5) ''put'' = Inr p
             \<and> c - p = exp (- (3 / 100 * 1)) * (105 - 100)
             \<and> \<bar>(c - p) - exp (- (3 / 100 * 1)) * (105 - 100)\<bar> \<le> 1 / 10 ^ 6)"
  using put_call_parity[of 105 100 1 "1 / 5" "3 / 100"] by simp

text \<open>
  Claim C9 says that the prices are strictly increasing in the volatility. With the
  doubles of \<open>norm.cdf\<close> they are not: for \<open>S = 100\<close>, \<open>K = 50\<close>, \<open>T = 1\<close>, \<open>r = 0\<close> both \<open>d1\<close>
  and \<open>d2\<close> are far above 9 at the volatilities 0.01 and 0.02, \<open>norm.cdf\<close> returns 1.0, and
  the spot call is priced at exactly 50 at both.
\<close>

theorem double_price_flat_in_sigma:
  "price_option_with norm_cdf_double ''spot'' 100 50 1 0 (1 / 100) ''call'' = Inr 50
   \<and> price_option_with norm_cdf_double ''spot'' 100 50 1 0 (1 / 50) ''call'' = Inr 50"
  by (simp add: price_option_with_def deep_in_the_money_price)

text \<open>
  Claim C9, amended. In exact arithmetic, with \<open>norm.cdf\<close> the exact distribution
  function: for fixed positive \<open>S\<close> (or \<open>F\<close>), \<open>K\<close>, \<open>T\<close> and any rate, the call price and
  the put price of both models are strictly increasing in the volatility on
  \<open>sigma > 0\<close>: both prices are returned, and the one at the larger volatility is larger.
\<close>

theorem price_increasing_in_sigma:
  assumes "0 < S" "0 < K" "0 < T" "0 < sigma1" "sigma1 < sigma2"
    and "model = ''spot'' \<or> model = ''futures''"
    and "option_type = ''call'' \<or> option_type = ''put''"
  shows "\<exists>p1 p2. price_option model S K T r sigma1 option_type = Inr p1
           \<and> price_option model S K T r sigma2 option_type = Inr p2 \<and> p1 < p2"
  using assms by (rule price_option_strict_mono)

theorem price_increasing_in_sigma_witness:
  "\<exists>p1 p2. price_option ''futures'' 100 100 1 (3 / 100) (1 / 5) ''put'' = Inr p1
           \<and> price_option ''futures'' 100 100 1 (3 / 100) (3 / 10) ''put'' = Inr p2 \<and> p1 < p2"
  using price_increasing_in_sigma[of 100 100 1 "1 / 5" "3 / 10" "''futures''" "''put''" "3 / 100"]
  by simp

section \<open>Invalid arguments\<close>




text \<open>
  Claim C10 says that the implied-volatility entry point returns \<open>None\<close> for every
  option type other than call and put. With a strike of 0.0 the first pricing call
  raises \<open>ZeroDivisionError\<close>, which the handler does not catch: the entry point raises
  it, whatever the root finder.
\<close>

theorem zero_strike_escapes_solver_handler:
  "\<forall>brentq. get_implied_volatility brentq ''spot'' 5 100 0 1 (3 / 100) ''straddle''
     = Inl ZeroDivisionError"
  by (simp add: get_implied_volatility_def implied_volatility_def black_scholes_def
      py_truediv_def except_ValueError_def)

text \<open>
  Claim C10, amended. For a recognised model, an option type other than call and put
  and a strike that is not zero, the implied-volatility entry point returns \<open>None\<close>
  instead of raising: the \<open>ValueError\<close> of the pricing function is caught by the handler
  of the solver, whatever the root finder would do.
\<close>

theorem implied_volatility_swallows_invalid_option_type:
  assumes "K \<noteq> 0"
    and "model = ''spot'' \<or> model = ''futures''"
    and "option_type \<noteq> ''call''" "option_type \<noteq> ''put''"
  shows "get_implied_volatility brentq model market_price S_or_F K T r option_type = Inr None"
  using assms
  by (auto simp: get_implied_volatility_def implied_volatility_def implied_volatility_black76_def
      black_scholes_def black_76_def py_truediv_def Let_def except_ValueError_def)

theorem implied_volatility_swallows_invalid_option_type_witness:
  "\<forall>brentq. get_implied_volatility brentq ''futures'' 5 100 100 1 (3 / 100) ''straddle''
     = Inr None"
proof
  fix brentq :: root_finder
  show "get_implied_volatility brentq ''futures'' 5 100 100 1 (3 / 100) ''straddle'' = Inr None"
    using implied_volatility_swallows_invalid_option_type
      [of 100 "''futures''" "''straddle''" brentq 5 100 1 "3 / 100"]
    by simp
qed

section \<open>Rounding and the Greeks dictionary\<close>

lemma rint_near: "\<bar>of_int (rint x) - x\<bar> \<le> 1 / 2"
proof -
  have "of_int \<lfloor>x\<rfloor> \<le> x" "x < of_int \<lfloor>x\<rfloor> + 1"
    by linarith+
  then show ?thesis
    by (auto simp: rint_def Let_def)
qed

lemma py_round_near: "\<bar>py_round x n - x\<bar> \<le> 1 / (2 * 10 ^ n)"
proof -
  have "\<bar>py_round x n - x\<bar> = \<bar>of_int (rint (x * 10 ^ n)) - x * 10 ^ n\<bar> / 10 ^ n"
    by (simp add: py_round_def field_simps abs_divide)
  also have "\<dots> \<le> (1 / 2) / 10 ^ n"
    by (intro divide_right_mono rint_near) simp
  finally show ?thesis by simp
qed

lemma py_round_4_near: "\<bar>py_round x 4 - x\<bar> \<le> 1 / 20000"
  using py_round_near[of x 4] by simp

lemma py_round_grid: "py_round x n * 10 ^ n = of_int (rint (x * 10 ^ n))"
  by (simp add: py_round_def)

lemma greeks_dict_dom:
  "dom (greeks_dict delta gamma vega theta rho) = {''Delta'', ''Gamma'', ''Vega'', ''Theta'', ''Rho''}"
  by (auto simp: greeks_dict_def)

lemma greeks_dict_rounded:
  "greeks_dict delta gamma vega theta rho k = Some v \<Longrightarrow> \<exists>x. v = py_round x 4"
  by (auto simp: greeks_dict_def split: if_splits)

lemma calculate_greeks_bs_call:
  "K \<noteq> 0 \<Longrightarrow> calculate_greeks_bs S K T r sigma ''call'' =
     Inr (greeks_dict
       (norm_cdf (spec_d1_spot S K T r sigma))
       (norm_pdf (spec_d1_spot S K T r sigma) / (S * sigma * sqrt T))
       (S * norm_pdf (spec_d1_spot S K T r sigma) * sqrt T / 100)
       ((- S * norm_pdf (spec_d1_spot S K T r sigma) * sigma / (2 * sqrt T)
         - r * K * exp (- r * T) * norm_cdf (spec_d1_spot S K T r sigma - sigma * sqrt T)) / 365)
       (K * T * exp (- r * T) * norm_cdf (spec_d1_spot S K T r sigma - sigma * sqrt T) / 100))"
  by (simp add: calculate_greeks_bs_def py_truediv_def Let_def spec_d1_spot_def)

lemma calculate_greeks_bs_put:
  "K \<noteq> 0 \<Longrightarrow> calculate_greeks_bs S K T r sigma ''put'' =
     Inr (greeks_dict
       (norm_cdf (spec_d1_spot S K T r sigma) - 1)
       (norm_pdf (spec_d1_spot S K T r sigma) / (S * sigma * sqrt T))
       (S * norm_pdf (spec_d1_spot S K T r sigma) * sqrt T / 100)
       ((- S * norm_pdf (spec_d1_spot S K T r sigma) * sigma / (2 * sqrt T)
         + r * K * exp (- r * T) * norm_cdf (- (spec_d1_spot S K T r sigma - sigma * sqrt T))) / 365)
       (- K * T * exp (- r * T) * norm_cdf (- (spec_d1_spot S K T r sigma - sigma * sqrt T)) / 100))"
  by (simp add: calculate_greeks_bs_def py_truediv_def Let_def spec_d1_spot_def)

lemma calculate_greeks_black76_call:
  "K \<noteq> 0 \<Longrightarrow> calculate_greeks_black76 F K T r sigma ''call'' =
     Inr (greeks_dict
       (exp (- r * T) * norm_cdf (spec_d1_futures F K T sigma))
       (norm_pdf (spec_d1_futures F K T sigma) / (F * sigma * sqrt T))
       (F * norm_pdf (spec_d1_futures F K T sigma) * sqrt T * exp (- r * T) / 100)
       ((- F * norm_pdf (spec_d1_futures F K T sigma) * sigma * exp (- r * T) / (2 * sqrt T)
         - r * F * norm_cdf (spec_d1_futures F K T sigma) * exp (- r * T)) / 365)
       (T * K * exp (- r * T) * norm_cdf (spec_d1_futures F K T sigma - sigma * sqrt T) / 100))"
  by (simp add: calculate_greeks_black76_def py_truediv_def Let_def spec_d1_futures_def)

lemma calculate_greeks_black76_put:
  "K \<noteq> 0 \<Longrightarrow> calculate_greeks_black76 F K T r sigma ''put'' =
     Inr (greeks_dict
       (- exp (- r * T) * norm_cdf (- spec_d1_futures F K T sigma))
       (norm_pdf (spec_d1_futures F K T sigma) / (F * sigma * sqrt T))
       (F * norm_pdf (spec_d1_futures F K T sigma) * sqrt T * exp (- r * T) / 100)
       ((- F * norm_pdf (spec_d1_futures F K T sigma) * sigma * exp (- r * T) / (2 * sqrt T)
         + r * F * norm_cdf (- spec_d1_futures F K T sigma) * exp (- r * T)) / 365)
       (- T * K * exp (- r * T) * norm_cdf (- (spec_d1_futures F K T sigma - sigma * sqrt T)) / 100))"
  by (simp add: calculate_greeks_black76_def py_truediv_def Let_def spec_d1_futures_def)

lemma calculate_greeks_returns:
  assumes "K \<noteq> 0" "model = ''spot'' \<or> model = ''futures''"
    "option_type = ''call'' \<or> option_type = ''put''"
  shows "\<exists>delta gamma vega theta rho.
           calculate_greeks model S K T r sigma option_type
             = Inr (greeks_dict delta gamma vega theta rho)"
proof -
  consider "model = ''spot''" "option_type = ''call''" | "model = ''spot''" "option_type = ''put''"
    | "model = ''futures''" "option_type = ''call''" | "model = ''futures''" "option_type = ''put''"
    using assms by blast
  then show ?thesis
  proof cases
    case 1
    then have "calculate_greeks model S K T r sigma option_type
        = calculate_greeks_bs S K T r sigma ''call''"
      by (simp add: calculate_greeks_def)
    then show ?thesis
      unfolding calculate_greeks_bs_call[OF assms(1)] by blast
  next
    case 2
    then have "calculate_greeks model S K T r sigma option_type
        = calculate_greeks_bs S K T r sigma ''put''"
      by (simp add: calculate_greeks_def)
    then show ?thesis
      unfolding calculate_greeks_bs_put[OF assms(1)] by blast
  next
    case 3
    then have "calculate_greeks model S K T r sigma option_type
        = calculate_greeks_black76 S K T r sigma ''call''"
      by (simp add: calculate_greeks_def)
    then show ?thesis
      unfolding calculate_greeks_black76_call[OF assms(1)] by blast
  next
    case 4
    then have "calculate_greeks model S K T r sigma option_type
        = calculate_greeks_black76 S K T r sigma ''put''"
      by (simp add: calculate_greeks_def)
    then show ?thesis
      unfolding calculate_greeks_black76_put[OF assms(1)] by blast
  qed
qed

text \<open>
  Claim C7. For a valid input (positive \<open>S\<close>, \<open>K\<close>, \<open>T\<close>, \<open>sigma\<close>, a model among spot
  and futures, an option type among call and put) the Greeks entry point returns a
  dictionary whose keys are exactly Delta, Gamma, Vega, Theta and Rho, and every value
  in it is the result of rounding to 4 places: a whole number of ten-thousandths.
\<close>

theorem greeks_keys_and_rounding:
  assumes "0 < S" "0 < K" "0 < T" "0 < sigma"
    and "model = ''spot'' \<or> model = ''futures''"
    and "option_type = ''call'' \<or> option_type = ''put''"
  shows "\<exists>g. calculate_greeks model S K T r sigma option_type = Inr g
           \<and> dom g = {''Delta'', ''Gamma'', ''Vega'', ''Theta'', ''Rho''}
           \<and> (\<forall>k v. g k = Some v \<longrightarrow> (\<exists>x. v = py_round x 4) \<and> v * 10 ^ 4 \<in> \<int>)"
proof -
  have "K \<noteq> 0" using assms by simp
  from calculate_greeks_returns[OF this assms(5,6)]
  obtain delta gamma vega theta rho where
    g: "calculate_greeks model S K T r sigma option_type
          = Inr (greeks_dict delta gamma vega theta rho)"
    by blast
  have "(\<exists>x. v = py_round x 4) \<and> v * 10 ^ 4 \<in> \<int>"
    if "greeks_dict delta gamma vega theta rho k = Some v" for k v
  proof -
    from greeks_dict_rounded[OF that] obtain x where "v = py_round x 4" by blast
    then show ?thesis
      using py_round_grid[of x 4] by (metis Ints_of_int)
  qed
  with g greeks_dict_dom show ?thesis
    by blast
qed

theorem greeks_keys_and_rounding_witness:
  "\<exists>g v. calculate_greeks ''spot'' 100 100 1 (3 / 100) (1 / 5) ''call'' = Inr g
           \<and> dom g = {''Delta'', ''Gamma'', ''Vega'', ''Theta'', ''Rho''}
           \<and> g ''Theta'' = Some v \<and> (\<exists>x. v = py_round x 4) \<and> v * 10 ^ 4 \<in> \<int>"
proof -
  have "\<exists>g. calculate_greeks ''spot'' 100 100 1 (3 / 100) (1 / 5) ''call'' = Inr g
           \<and> dom g = {''Delta'', ''Gamma'', ''Vega'', ''Theta'', ''Rho''}
           \<and> (\<forall>k v. g k = Some v \<longrightarrow> (\<exists>x. v = py_round x 4) \<and> v * 10 ^ 4 \<in> \<int>)"
    using greeks_keys_and_rounding[of 100 100 1 "1 / 5" "''spot''" "''call''" "3 / 100"]
    by simp
  then obtain g where g1: "calculate_greeks ''spot'' 100 100 1 (3 / 100) (1 / 5) ''call'' = Inr g"
    and g2: "dom g = {''Delta'', ''Gamma'', ''Vega'', ''Theta'', ''Rho''}"
    and g3: "\<forall>k v. g k = Some v \<longrightarrow> (\<exists>x. v = py_round x 4) \<and> v * 10 ^ 4 \<in> \<int>"
    by (elim exE conjE)
  have "''Theta'' \<in> dom g"
    unfolding g2 by simp
  then obtain v where v: "g ''Theta'' = Some v"
    by (auto simp only: dom_def mem_Collect_eq not_None_eq)
  from g3 v have r: "(\<exists>x. v = py_round x 4) \<and> v * 10 ^ 4 \<in> \<int>"
    by (elim allE impE) assumption
  have "calculate_greeks ''spot'' 100 100 1 (3 / 100) (1 / 5) ''call'' = Inr g
           \<and> dom g = {''Delta'', ''Gamma'', ''Vega'', ''Theta'', ''Rho''}
           \<and> g ''Theta'' = Some v \<and> (\<exists>x. v = py_round x 4) \<and> v * 10 ^ 4 \<in> \<int>"
    by (intro conjI g1 g2 v conjunct1[OF r] conjunct2[OF r])
  then show ?thesis
    by (intro exI)
qed

section \<open>Bounds on the normal distribution function\<close>

lemma norm_pdf_antimono: "0 \<le> t \<Longrightarrow> t \<le> x \<Longrightarrow> norm_pdf x \<le> norm_pdf t"
proof -
  assume "0 \<le> t" "t \<le> x"
  then have "t\<^sup>2 \<le> x\<^sup>2" by (intro power_mono) simp_all
  then show ?thesis
    by (simp add: norm_pdf_def divide_right_mono)
qed

lemma norm_cdf_lower:
  assumes "0 \<le> x"
  shows "1 / 2 + x * norm_pdf x \<le> norm_cdf x"
proof -
  have "norm_cdf 0 - 0 * norm_pdf x \<le> norm_cdf x - x * norm_pdf x"
  proof (rule DERIV_nonneg_imp_nondecreasing[OF assms])
    fix t assume t: "0 \<le> t" "t \<le> x"
    have "DERIV (\<lambda>t. norm_cdf t - t * norm_pdf x) t :> norm_pdf t - 1 * norm_pdf x"
      by (intro DERIV_diff norm_cdf_deriv DERIV_cmult_right DERIV_ident)
    moreover have "0 \<le> norm_pdf t - 1 * norm_pdf x"
      using norm_pdf_antimono[OF t] by simp
    ultimately show "\<exists>y. DERIV (\<lambda>t. norm_cdf t - t * norm_pdf x) t :> y \<and> 0 \<le> y"
      by blast
  qed
  then show ?thesis
    by (simp add: norm_cdf_0)
qed

lemma norm_cdf_upper:
  assumes "0 \<le> x"
  shows "norm_cdf x \<le> 1 / 2 + x * norm_pdf 0"
proof -
  have "0 * norm_pdf 0 - norm_cdf 0 \<le> x * norm_pdf 0 - norm_cdf x"
  proof (rule DERIV_nonneg_imp_nondecreasing[OF assms])
    fix t assume t: "0 \<le> t" "t \<le> x"
    have "DERIV (\<lambda>t. t * norm_pdf 0 - norm_cdf t) t :> 1 * norm_pdf 0 - norm_pdf t"
      by (intro DERIV_diff norm_cdf_deriv DERIV_cmult_right DERIV_ident)
    moreover have "0 \<le> 1 * norm_pdf 0 - norm_pdf t"
      using norm_pdf_antimono[of 0 t] t by simp
    ultimately show "\<exists>y. DERIV (\<lambda>t. t * norm_pdf 0 - norm_cdf t) t :> y \<and> 0 \<le> y"
      by blast
  qed
  then show ?thesis
    by (simp add: norm_cdf_0)
qed

lemma sqrt_2pi_bounds: "2 \<le> sqrt (2 * pi)" "sqrt (2 * pi) \<le> 3"
proof -
  have "sqrt 4 \<le> sqrt (2 * pi)"
    using pi_ge_two by (intro real_sqrt_le_mono) simp
  then show "2 \<le> sqrt (2 * pi)" by simp
  have "sqrt (2 * pi) \<le> sqrt 9"
    using pi_less_4 by (intro real_sqrt_le_mono) simp
  then show "sqrt (2 * pi) \<le> 3" by simp
qed

lemma norm_pdf_0_le: "norm_pdf 0 \<le> 1 / 2"
proof -
  have "1 / sqrt (2 * pi) \<le> 1 / 2"
    using sqrt_2pi_bounds(1) by (intro divide_left_mono) simp_all
  then show ?thesis by (simp add: norm_pdf_def)
qed

lemma norm_pdf_ge: "(1 - x\<^sup>2 / 2) / 3 \<le> norm_pdf x"
proof -
  have e: "1 + (- x\<^sup>2 / 2) \<le> exp (- x\<^sup>2 / 2)"
    by (rule exp_ge_add_one_self)
  have "(1 - x\<^sup>2 / 2) / 3 \<le> exp (- x\<^sup>2 / 2) / 3"
    using e by simp
  also have "\<dots> \<le> exp (- x\<^sup>2 / 2) / sqrt (2 * pi)"
    using sqrt_2pi_bounds by (intro divide_left_mono) simp_all
  finally show ?thesis by (simp add: norm_pdf_def)
qed

text \<open>At the money and without interest the call value is \<open>S (2 \<Phi>(\<sigma>\<surd>T / 2) - 1)\<close>.\<close>

lemma call_value_at_the_money:
  assumes "0 < S" "0 < T" "0 < sigma"
  shows "call_value S S T 0 sigma = S * (2 * norm_cdf (sigma * sqrt T / 2) - 1)"
proof -
  have "sigma\<^sup>2 * T = (sigma * sqrt T) * (sigma * sqrt T)"
    using assms by (simp add: power2_eq_square)
  then have d1: "(ln (S / S) + (0 + 0.5 * sigma\<^sup>2) * T) / (sigma * sqrt T) = sigma * sqrt T / 2"
    using assms by simp
  have "call_value S S T 0 sigma
      = S * norm_cdf (sigma * sqrt T / 2) - S * norm_cdf (sigma * sqrt T / 2 - sigma * sqrt T)"
    unfolding call_value_def d1 by simp
  also have "sigma * sqrt T / 2 - sigma * sqrt T = - (sigma * sqrt T / 2)"
    by simp
  finally show ?thesis
    by (simp add: norm_cdf_minus algebra_simps)
qed

section \<open>The implied-volatility solver\<close>

lemma price_option_returns:
  assumes "K \<noteq> 0" "model = ''spot'' \<or> model = ''futures''"
    "option_type = ''call'' \<or> option_type = ''put''"
  shows "\<exists>p. price_option model S K T r sigma option_type = Inr p"
  using price_option_affine[OF assms, of S T r] by blast

lemma get_implied_volatility_unfold:
  assumes "model = ''spot'' \<or> model = ''futures''"
    and "price_option model S K T r 0.0001 option_type = Inr lo"
    and "price_option model S K T r 3 option_type = Inr hi"
  shows "get_implied_volatility brentq model mp S K T r option_type =
     (if \<not> (lo \<le> mp \<and> mp \<le> hi) then Inr None
      else except_ValueError
        (case brentq (solver_objective model mp S K T r option_type) 0.0001 3 of
           Inl e \<Rightarrow> Inl e
         | Inr implied_vol \<Rightarrow> Inr (Some (py_round implied_vol 4))))"
proof (cases "model = ''spot''")
  case True
  with assms have "black_scholes S K T r 0.0001 option_type = Inr lo"
    "black_scholes S K T r 3 option_type = Inr hi"
    by (simp_all add: price_option_def)
  with True show ?thesis
    by (simp add: get_implied_volatility_def implied_volatility_def solver_objective_def
        except_ValueError_def)
next
  case False
  with assms have m: "model = ''futures''" by blast
  with assms have "black_76 S K T r 0.0001 option_type = Inr lo"
    "black_76 S K T r 3 option_type = Inr hi"
    by (simp_all add: price_option_def)
  with m show ?thesis
    by (simp add: get_implied_volatility_def implied_volatility_black76_def solver_objective_def
        except_ValueError_def)
qed

text \<open>The bracket of an at-the-money spot call with \<open>S = K = 100\<close>, \<open>T = 1\<close>, \<open>r = 0\<close>:
  the price at 0.0001 is below 10, the price at 3.0 lies between 10 and 200.\<close>

lemma spot_bracket_prices:
  "black_scholes 100 100 1 0 (1 / 10000) ''call'' = Inr (100 * (2 * norm_cdf (1 / 20000) - 1))"
  "black_scholes 100 100 1 0 3 ''call'' = Inr (100 * (2 * norm_cdf (3 / 2) - 1))"
  using call_value_at_the_money[of 100 1 "1 / 10000"] call_value_at_the_money[of 100 1 3]
  by (simp_all add: black_scholes_call)

lemma spot_bracket_contains_10:
  "100 * (2 * norm_cdf (1 / 20000) - 1) \<le> 10" "10 \<le> 100 * (2 * norm_cdf (3 / 2) - 1)"
proof -
  have "norm_cdf (1 / 20000) \<le> 1 / 2 + 1 / 20000 * norm_pdf 0"
    by (rule norm_cdf_upper) simp
  also have "\<dots> \<le> 1 / 2 + 1 / 20000 * (1 / 2)"
    using norm_pdf_0_le by simp
  finally show "100 * (2 * norm_cdf (1 / 20000) - 1) \<le> 10"
    by simp
  have "exp (- 2) \<le> exp (- (3 / 2)\<^sup>2 / 2 :: real)"
    by (simp add: power2_eq_square)
  moreover have "exp 2 = exp 1 * exp (1::real)"
    by (simp add: exp_add[symmetric])
  then have "exp (2::real) \<le> 3 * 3"
    using exp_le by (simp only: mult_mono exp_ge_zero)
  then have "1 / 9 \<le> 1 / exp (2::real)"
    by (intro divide_left_mono) simp_all
  then have "1 / 9 \<le> exp (- 2 :: real)"
    by (simp add: exp_minus inverse_eq_divide)
  ultimately have "1 / 9 \<le> exp (- (3 / 2)\<^sup>2 / 2 :: real)"
    by linarith
  then have "(1 / 9) / 3 \<le> exp (- (3 / 2)\<^sup>2 / 2) / sqrt (2 * pi)"
    using sqrt_2pi_bounds by (intro frac_le) simp_all
  then have "1 / 27 \<le> norm_pdf (3 / 2)"
    by (simp add: norm_pdf_def)
  moreover have "1 / 2 + 3 / 2 * norm_pdf (3 / 2) \<le> norm_cdf (3 / 2)"
    by (rule norm_cdf_lower) simp
  ultimately show "10 \<le> 100 * (2 * norm_cdf (3 / 2) - 1)"
    by simp
qed

lemma spot_bracket_below_200: "100 * (2 * norm_cdf (3 / 2) - 1) < 200"
proof -
  have "norm_cdf (3 / 2) \<le> 1 / 2 + 3 / 2 * norm_pdf 0"
    by (rule norm_cdf_upper) simp
  also have "\<dots> \<le> 1 / 2 + 3 / 2 * (1 / 2)"
    using norm_pdf_0_le by simp
  finally show ?thesis by simp
qed

text \<open>
  Claim C4. For a valid contract (positive underlying, strike and time, a model among
  spot and futures, an option type among call and put) the solver prices the option at
  the volatilities 0.0001 and 3.0; it returns \<open>None\<close> when the market price is strictly
  below the first price or strictly above the second, and otherwise calls the root
  finder on the objective over \<open>[0.0001, 3.0]\<close> and returns what the handler makes of
  its answer.
\<close>

theorem bracket_check:
  assumes "0 < S" "0 < K" "0 < T"
    and "model = ''spot'' \<or> model = ''futures''"
    and "option_type = ''call'' \<or> option_type = ''put''"
  shows "\<exists>lo hi. price_option model S K T r 0.0001 option_type = Inr lo
           \<and> price_option model S K T r 3 option_type = Inr hi
           \<and> (mp < lo \<or> hi < mp \<longrightarrow>
                get_implied_volatility brentq model mp S K T r option_type = Inr None)
           \<and> (\<not> (mp < lo \<or> hi < mp) \<longrightarrow>
                get_implied_volatility brentq model mp S K T r option_type =
                  except_ValueError
                    (case brentq (solver_objective model mp S K T r option_type) 0.0001 3 of
                       Inl e \<Rightarrow> Inl e
                     | Inr implied_vol \<Rightarrow> Inr (Some (py_round implied_vol 4))))"
proof -
  have K: "K \<noteq> 0" using assms by simp
  obtain lo where lo: "price_option model S K T r 0.0001 option_type = Inr lo"
    using price_option_returns[OF K assms(4,5)] by blast
  obtain hi where hi: "price_option model S K T r 3 option_type = Inr hi"
    using price_option_returns[OF K assms(4,5)] by blast
  show ?thesis
    using lo hi get_implied_volatility_unfold[OF assms(4) lo hi, of brentq mp]
    by (intro exI[of _ lo] exI[of _ hi]) (simp add: not_less)
qed

theorem bracket_check_witness:
  "get_implied_volatility (brentq_returning 1) ''spot'' 200 100 100 1 0 ''call'' = Inr None
   \<and> get_implied_volatility (brentq_returning 1) ''spot'' 10 100 100 1 0 ''call''
       = Inr (Some (py_round 1 4))"
  using bracket_check[of 100 100 1 "''spot''" "''call''" 0 200 "brentq_returning 1"]
    bracket_check[of 100 100 1 "''spot''" "''call''" 0 10 "brentq_returning 1"]
    spot_bracket_contains_10 spot_bracket_below_200
  by (simp add: price_option_def spot_bracket_prices brentq_returning_def except_ValueError_def)







section \<open>Theta and Rho of the futures model\<close>

lemma greeks_dict_lookup:
  "greeks_dict delta gamma vega theta rho ''Theta'' = Some (py_round theta 4)"
  "greeks_dict delta gamma vega theta rho ''Rho'' = Some (py_round rho 4)"
  by (simp_all add: greeks_dict_def)

lemma py_round_4_apart:
  assumes "1 / 10 ^ 4 < \<bar>a - b\<bar>"
  shows "py_round a 4 \<noteq> py_round b 4"
proof
  assume "py_round a 4 = py_round b 4"
  with py_round_4_near[of a] py_round_4_near[of b] have "\<bar>a - b\<bar> \<le> 1 / 20000 + 1 / 20000"
    by linarith
  with assms show False by simp
qed

lemma theta_example_d1: "spec_d1_futures 100 100 1 (1 / 5) = 1 / 10"
  by (simp add: spec_d1_futures_def power2_eq_square)

lemma theta_example_gap:
  "1 / 2000 \<le> 3 * exp (- (3 / 100)) * (2 * norm_cdf (1 / 10) - 1) / 365"
proof -
  have "1 / 2 + 1 / 10 * norm_pdf (1 / 10) \<le> norm_cdf (1 / 10)"
    by (rule norm_cdf_lower) simp
  moreover have "(1 - (1 / 10)\<^sup>2 / 2) / 3 \<le> norm_pdf (1 / 10)"
    by (rule norm_pdf_ge)
  ultimately have c: "199 / 3000 \<le> 2 * norm_cdf (1 / 10) - 1"
    by (simp add: power2_eq_square)
  have e: "97 / 100 \<le> exp (- (3 / 100) :: real)"
    using exp_ge_add_one_self[of "- (3 / 100) :: real"] by simp
  have "97 / 100 * (199 / 3000) \<le> exp (- (3 / 100)) * (2 * norm_cdf (1 / 10) - 1)"
    using e c by (intro mult_mono) simp_all
  then show ?thesis by simp
qed

text \<open>
  Claim C2 gives the Theta of a futures call as the spot pattern with the discount
  factor, \<open>[- F \<phi>(d1) \<sigma> df / (2 \<surd>T) - r K df \<Phi>(d2)] / 365\<close>. For \<open>F = K = 100\<close>, \<open>T = 1\<close>,
  \<open>r = 0.03\<close> and \<open>\<sigma> = 0.2\<close> the Theta that the code returns is neither this number nor
  its rounding to 4 places: the two differ by more than 0.0005.
\<close>

theorem futures_theta_differs_from_spot_pattern:
  "greek_of (calculate_greeks_black76 100 100 1 (3 / 100) (1 / 5) ''call'') ''Theta''
     \<noteq> Some (py_round (spec_theta_futures 100 100 1 (3 / 100) (1 / 5) ''call'') 4)
   \<and> greek_of (calculate_greeks_black76 100 100 1 (3 / 100) (1 / 5) ''call'') ''Theta''
     \<noteq> Some (spec_theta_futures 100 100 1 (3 / 100) (1 / 5) ''call'')"
proof -
  define base where "base = - 100 * norm_pdf (1 / 10) * (1 / 5) * exp (- (3 / 100)) / 2"
  define code where "code = (base - 3 / 100 * 100 * norm_cdf (1 / 10) * exp (- (3 / 100))) / 365"
  define spec where "spec = (base - 3 / 100 * 100 * exp (- (3 / 100)) * norm_cdf (- (1 / 10))) / 365"
  have code: "greek_of (calculate_greeks_black76 100 100 1 (3 / 100) (1 / 5) ''call'') ''Theta''
      = Some (py_round code 4)"
    by (simp add: calculate_greeks_black76_call greek_of_def greeks_dict_lookup
        theta_example_d1 code_def base_def)
  have spec: "spec_theta_futures 100 100 1 (3 / 100) (1 / 5) ''call'' = spec"
    by (simp add: spec_theta_futures_def theta_example_d1 Let_def spec_def base_def)
  have "spec - code = 3 * exp (- (3 / 100)) * (2 * norm_cdf (1 / 10) - 1) / 365"
    unfolding spec_def code_def norm_cdf_minus by (simp add: field_simps)
  with theta_example_gap have gap: "1 / 2000 \<le> spec - code"
    by simp
  then have "py_round code 4 \<noteq> py_round spec 4"
    by (intro py_round_4_apart) simp
  moreover have "py_round code 4 \<noteq> spec"
    using py_round_4_near[of code] gap by auto
  ultimately show ?thesis
    by (simp add: code spec)
qed

text \<open>
  Claim C2, amended. For positive \<open>F\<close>, \<open>K\<close>, \<open>T\<close>, \<open>sigma\<close> and any rate, with
  \<open>df = e\<^sup>-\<^sup>r\<^sup>T\<close> and \<open>d2 = d1 - \<sigma> \<surd>T\<close>: the Rho of the futures model follows the spot
  pattern, \<open>K T df \<Phi>(d2) / 100\<close> for a call and \<open>- K T df \<Phi>(- d2) / 100\<close> for a put; the
  Theta of the futures model is \<open>[- F \<phi>(d1) \<sigma> df / (2 \<surd>T) - r F df \<Phi>(d1)] / 365\<close> for a
  call and \<open>[- F \<phi>(d1) \<sigma> df / (2 \<surd>T) + r F df \<Phi>(- d1)] / 365\<close> for a put, its second term
  built from \<open>F\<close> and \<open>d1\<close>. Each is returned rounded to 4 places.
\<close>

theorem futures_theta_and_rho:
  assumes "0 < F" "0 < K" "0 < T" "0 < sigma"
  shows "greek_of (calculate_greeks_black76 F K T r sigma ''call'') ''Theta''
           = Some (py_round
               ((- F * norm_pdf (spec_d1_futures F K T sigma) * sigma * exp (- (r * T)) / (2 * sqrt T)
                 - r * F * exp (- (r * T)) * norm_cdf (spec_d1_futures F K T sigma)) / 365) 4)
       \<and> greek_of (calculate_greeks_black76 F K T r sigma ''put'') ''Theta''
           = Some (py_round
               ((- F * norm_pdf (spec_d1_futures F K T sigma) * sigma * exp (- (r * T)) / (2 * sqrt T)
                 + r * F * exp (- (r * T)) * norm_cdf (- spec_d1_futures F K T sigma)) / 365) 4)
       \<and> greek_of (calculate_greeks_black76 F K T r sigma ''call'') ''Rho''
           = Some (py_round
               (K * T * exp (- (r * T))
                  * norm_cdf (spec_d1_futures F K T sigma - sigma * sqrt T) / 100) 4)
       \<and> greek_of (calculate_greeks_black76 F K T r sigma ''put'') ''Rho''
           = Some (py_round
               (- K * T * exp (- (r * T))
                  * norm_cdf (- (spec_d1_futures F K T sigma - sigma * sqrt T)) / 100) 4)"
proof -
  have K: "K \<noteq> 0" using assms by simp
  show ?thesis
    unfolding calculate_greeks_black76_call[OF K] calculate_greeks_black76_put[OF K]
    by (simp add: greek_of_def greeks_dict_lookup mult_ac)
qed

theorem futures_theta_and_rho_witness:
  "greek_of (calculate_greeks_black76 100 100 1 (3 / 100) (1 / 5) ''call'') ''Theta''
           = Some (py_round
               ((- 100 * norm_pdf (spec_d1_futures 100 100 1 (1 / 5)) * (1 / 5) * exp (- (3 / 100 * 1)) / (2 * sqrt 1)
                 - 3 / 100 * 100 * exp (- (3 / 100 * 1)) * norm_cdf (spec_d1_futures 100 100 1 (1 / 5))) / 365) 4)
       \<and> greek_of (calculate_greeks_black76 100 100 1 (3 / 100) (1 / 5) ''put'') ''Theta''
           = Some (py_round
               ((- 100 * norm_pdf (spec_d1_futures 100 100 1 (1 / 5)) * (1 / 5) * exp (- (3 / 100 * 1)) / (2 * sqrt 1)
                 + 3 / 100 * 100 * exp (- (3 / 100 * 1)) * norm_cdf (- spec_d1_futures 100 100 1 (1 / 5))) / 365) 4)
       \<and> greek_of (calculate_greeks_black76 100 100 1 (3 / 100) (1 / 5) ''call'') ''Rho''
           = Some (py_round
               (100 * 1 * exp (- (3 / 100 * 1))
                  * norm_cdf (spec_d1_futures 100 100 1 (1 / 5) - 1 / 5 * sqrt 1) / 100) 4)
       \<and> greek_of (calculate_greeks_black76 100 100 1 (3 / 100) (1 / 5) ''put'') ''Rho''
           = Some (py_round
               (- 100 * 1 * exp (- (3 / 100 * 1))
                  * norm_cdf (- (spec_d1_futures 100 100 1 (1 / 5) - 1 / 5 * sqrt 1)) / 100) 4)"
  using futures_theta_and_rho[of 100 100 1 "1 / 5" "3 / 100"] by simp

end
